theory Spec2Isabelle
  imports Main "HOL-Library.AList"
begin

section \<open>Process-wide configuration\<close>

text \<open>
  The module \<^verbatim>\<open>./config\<close> is imported by every source file but is not part of the
  sources at hand.  Each setting is read from the environment, hence a string that
  may be undefined; the non-null assertions \<^verbatim>\<open>!\<close> of the TypeScript are erased at
  run time and change nothing.
\<close>

record config =
  NODE_ENV :: "string option"
  CLIENT_URL :: "string option"
  REDIS_HOST :: "string option"
  DATABASE_URL :: "string option"
  SECRET_KEY_ONE :: "string option"
  SECRET_KEY_TWO :: "string option"
  JWT_TOKEN :: "string option"

section \<open>setupServer.ts: the middleware stack\<close>

subsection \<open>Options handed to the middleware factories\<close>

text \<open>
  \<^verbatim>\<open>cookieSession({name, keys, maxAge, secure})\<close>.  The field \<open>maxAge\<close> holds the
  number written in the source; the cookie-session package reads it as a number of
  milliseconds from the time the cookie is set.
\<close>

record cookie_session_options =
  name :: string
  keys :: "string option list"
  maxAge :: nat
  secure :: bool

text \<open>
  The options object of \<^verbatim>\<open>cors(...)\<close> and of the \<^verbatim>\<open>cors\<close> entry of the socket.io
  server.  Entries that an object literal leaves out are \<open>None\<close>.
\<close>

record cors_options =
  origin :: "string option"
  credentials :: "bool option"
  optionsSuccessStatus :: "nat option"
  methods :: "string list"

definition sessionCookie :: "config \<Rightarrow> cookie_session_options" where
  "sessionCookie cfg =
     \<lparr> name = ''session'',
       keys = [SECRET_KEY_ONE cfg, SECRET_KEY_TWO cfg],
       maxAge = 24 * 7 * 3600,
       secure = (NODE_ENV cfg \<noteq> Some ''development'') \<rparr>"

definition httpCors :: cors_options where
  "httpCors =
     \<lparr> origin = Some ''*'',
       credentials = Some True,
       optionsSuccessStatus = Some 200,
       methods = [''GET'', ''POST'', ''PUT'', ''DELETE'', ''OPTIONS''] \<rparr>"

definition socketCors :: "config \<Rightarrow> cors_options" where
  "socketCors cfg =
     \<lparr> origin = CLIENT_URL cfg,
       credentials = None,
       optionsSuccessStatus = None,
       methods = [''GET'', ''POST'', ''PUT'', ''DELETE'', ''OPTIONS''] \<rparr>"

text \<open>
  How the two packages behind these options read them (their code is outside the
  repository).  cookie-session: the cookie expires \<open>maxAge\<close> milliseconds after it is
  set, so its lifetime in whole seconds is \<open>maxAge div 1000\<close>.  cors: with an origin
  that is undefined or the empty string no cross-origin header is set, so no foreign
  origin is admitted; the string \<^verbatim>\<open>*\<close> admits every requesting origin; any other
  string admits that origin only.
\<close>

definition lifetime_seconds :: "cookie_session_options \<Rightarrow> nat" where
  "lifetime_seconds opts = maxAge opts div 1000"

definition origin_admitted :: "cors_options \<Rightarrow> string \<Rightarrow> bool" where
  "origin_admitted opts requesting =
     (case origin opts of
        None \<Rightarrow> False
      | Some allowed \<Rightarrow> allowed \<noteq> [] \<and> (allowed = ''*'' \<or> allowed = requesting))"

subsection \<open>The application and its stack of layers\<close>

text \<open>
  An Express application keeps the layers in the order of registration and runs them
  in that order.  \<^verbatim>\<open>app.use(h)\<close> mounts at the path \<^verbatim>\<open>/\<close>; \<^verbatim>\<open>app.use(p, h1, h2)\<close>
  mounts the handlers in the order given.
\<close>

datatype handler =
    CookieSession cookie_session_options
  | Hpp
  | Helmet
  | Cors cors_options
  | Compression
  | Json string
  | Urlencoded bool string
  | ServerAdapterRouter
  | AuthRoutes
  | SignoutRoutes
  | VerifyUser
  | CurrentUserRoutes
  | NotFoundReply
  | ErrorBoundary

datatype layer = Use string "handler list" | AllMethods string "handler list"

type_synonym application = "layer list"

definition app_use :: "string \<Rightarrow> handler list \<Rightarrow> application \<Rightarrow> application" where
  "app_use path hs app = app @ [Use path hs]"

definition app_all :: "string \<Rightarrow> handler list \<Rightarrow> application \<Rightarrow> application" where
  "app_all path hs app = app @ [AllMethods path hs]"

definition securityMiddleware :: "config \<Rightarrow> application \<Rightarrow> application" where
  "securityMiddleware cfg app =
     (let app1 = app_use ''/'' [CookieSession (sessionCookie cfg)] app;
          app2 = app_use ''/'' [Hpp] app1;
          app3 = app_use ''/'' [Helmet] app2
      in app_use ''/'' [Cors httpCors] app3)"

definition standardMiddleware :: "application \<Rightarrow> application" where
  "standardMiddleware app =
     (let app1 = app_use ''/'' [Compression] app;
          app2 = app_use ''/'' [Json ''50mb''] app1
      in app_use ''/'' [Urlencoded True ''50mb''] app2)"

text \<open>routes.ts\<close>

definition BASE_PATH :: string where
  "BASE_PATH = ''/api/v1''"

definition applicationRoute :: "application \<Rightarrow> application" where
  "applicationRoute app =
     (let app1 = app_use ''/queues'' [ServerAdapterRouter] app;
          app2 = app_use BASE_PATH [AuthRoutes] app1;
          app3 = app_use BASE_PATH [SignoutRoutes] app2
      in app_use BASE_PATH [VerifyUser, CurrentUserRoutes] app3)"

definition routeMiddleware :: "application \<Rightarrow> application" where
  "routeMiddleware app = applicationRoute app"

definition globalErrorHandler :: "application \<Rightarrow> application" where
  "globalErrorHandler app = app_use ''/'' [ErrorBoundary] (app_all ''*'' [NotFoundReply] app)"

text \<open>
  The four registration calls of \<^verbatim>\<open>AkademiaServer.start\<close>, in its order.  The fifth
  call, \<^verbatim>\<open>startServer\<close>, registers nothing and is modelled further down.
\<close>

definition start_registrations :: "config \<Rightarrow> application \<Rightarrow> application" where
  "start_registrations cfg app =
     globalErrorHandler (routeMiddleware (standardMiddleware (securityMiddleware cfg app)))"

text \<open>\<^verbatim>\<open>express()\<close>: an application without layers.\<close>

definition express :: application where
  "express = []"

fun layer_handlers :: "layer \<Rightarrow> handler list" where
  "layer_handlers (Use p hs) = hs"
| "layer_handlers (AllMethods p hs) = hs"

definition pipeline :: "application \<Rightarrow> handler list" where
  "pipeline app = concat (map layer_handlers app)"

subsection \<open>The stages of the specification\<close>

text \<open>
  The specification groups the handlers into five stages and orders them.  This
  classification follows the specification's wording (section 4.6): origin check,
  compression and the filters mounted by \<^verbatim>\<open>securityMiddleware\<close> are security filters,
  the two body parsers are body decoding, \<^verbatim>\<open>verifyUser\<close> is the authentication gate,
  every router is business dispatch, and the 404 reply and the error boundary are
  error normalization.
\<close>

datatype stage = Security | BodyDecoding | AuthGate | BusinessDispatch | ErrorNormalization

fun stage_of :: "handler \<Rightarrow> stage" where
  "stage_of (CookieSession opts) = Security"
| "stage_of Hpp = Security"
| "stage_of Helmet = Security"
| "stage_of (Cors opts) = Security"
| "stage_of Compression = Security"
| "stage_of (Json lim) = BodyDecoding"
| "stage_of (Urlencoded ext lim) = BodyDecoding"
| "stage_of ServerAdapterRouter = BusinessDispatch"
| "stage_of AuthRoutes = BusinessDispatch"
| "stage_of SignoutRoutes = BusinessDispatch"
| "stage_of VerifyUser = AuthGate"
| "stage_of CurrentUserRoutes = BusinessDispatch"
| "stage_of NotFoundReply = ErrorNormalization"
| "stage_of ErrorBoundary = ErrorNormalization"

fun stage_rank :: "stage \<Rightarrow> nat" where
  "stage_rank Security = 0"
| "stage_rank BodyDecoding = 1"
| "stage_rank AuthGate = 2"
| "stage_rank BusinessDispatch = 3"
| "stage_rank ErrorNormalization = 4"

definition stages :: "application \<Rightarrow> stage list" where
  "stages app = map stage_of (pipeline app)"

text \<open>The order the specification asks for: the ranks never decrease along the stack.\<close>

definition in_spec_order :: "application \<Rightarrow> bool" where
  "in_spec_order app = sorted (map stage_rank (stages app))"

section \<open>The process and what it does to the outside\<close>

text \<open>
  Both start-up files act on one Node process.  Its state is passed explicitly: the
  exit code once the process has ended, the calls made to the outside in the order
  they were made, and what has been set up so far.  What the network does is an
  input of the model.
\<close>

datatype connect_outcome = Connected | ConnectFailed string

datatype client_role = PubClient | SubClient

datatype effect =
    LogInfo string
  | LogError string
  | HttpListen nat string
  | IoAttach cors_options
  | CreateClient "string option"
  | DuplicateClient
  | ClientConnect client_role
  | IoAdapter
  | MongooseConnect string
  | Uncaught string
  | ProcessExit nat

record process =
  exit_code :: "nat option"
  trace :: "effect list"
  listening :: bool
  io_cors :: "cors_options option"
  adapter_installed :: bool
  on_disconnected :: bool

definition new_process :: process where
  "new_process =
     \<lparr> exit_code = None, trace = [], listening = False, io_cors = None,
       adapter_installed = False, on_disconnected = False \<rparr>"

definition emit :: "effect \<Rightarrow> process \<Rightarrow> process" where
  "emit e p = p\<lparr>trace := trace p @ [e]\<rparr>"

definition process_exit :: "nat \<Rightarrow> process \<Rightarrow> process" where
  "process_exit code p = (emit (ProcessExit code) p)\<lparr>exit_code := Some code\<rparr>"

text \<open>
  An exception that nothing catches, and an \<^verbatim>\<open>error\<close> event of an emitter that has
  no listener for it, end a Node process with exit code 1.  The sources register no
  \<^verbatim>\<open>error\<close> listener on the HTTP server or on the two bus clients, and no handler
  for uncaught exceptions.
\<close>

definition uncaught :: "string \<Rightarrow> process \<Rightarrow> process" where
  "uncaught reason p = process_exit 1 (emit (Uncaught reason) p)"

text \<open>The process serves HTTP while it is listening and has not ended.\<close>

definition serving :: "process \<Rightarrow> bool" where
  "serving p = (listening p \<and> exit_code p = None)"

subsection \<open>setupServer.ts: startServer\<close>

text \<open>
  What reaches the process from outside while it starts, in the order of time: the
  \<^verbatim>\<open>connect()\<close> promise of a client fulfils or rejects, a client emits \<^verbatim>\<open>error\<close>,
  or the HTTP server emits \<^verbatim>\<open>error\<close> because the port cannot be bound.
\<close>

datatype async_event =
    Resolves client_role
  | Rejects client_role string
  | EmitsError client_role string
  | ListenFails string

fun is_error_event :: "async_event \<Rightarrow> bool" where
  "is_error_event (EmitsError r reason) = True"
| "is_error_event (ListenFails reason) = True"
| "is_error_event (Resolves r) = False"
| "is_error_event (Rejects r reason) = False"

definition SERVER_PORT :: nat where
  "SERVER_PORT = 3003"

text \<open>
  \<^verbatim>\<open>httpServer.listen(port, callback)\<close>: the effect carries the port and the line the
  callback logs once the port is bound.  \<open>pid\<close> is \<^verbatim>\<open>process.pid\<close> as text.  A port
  that cannot be bound shows later, as the event \<open>ListenFails\<close>.
\<close>

definition startHttpServer :: "string \<Rightarrow> process \<Rightarrow> process" where
  "startHttpServer pid p =
     (let p1 = emit (LogInfo (''Server started with process '' @ pid)) p
      in (emit (HttpListen SERVER_PORT ''Server running on port 3003'') p1)\<lparr>listening := True\<rparr>)"

text \<open>
  The \<^verbatim>\<open>await\<close> of \<^verbatim>\<open>Promise.all([pubClient.connect(), subClient.connect()])\<close>.
  It fulfils once both promises have fulfilled and rejects with the reason of the
  rejection that comes first in time.  The two flags say which promise has fulfilled
  so far.  The events that come after the await has settled are handed back.  An
  error event during the await ends the process; when the events run out first, the
  await has not settled.
\<close>

datatype awaited = Fulfilled | RejectedWith string | Unsettled | Ended

fun await_connections ::
  "bool \<Rightarrow> bool \<Rightarrow> async_event list \<Rightarrow> process \<Rightarrow> process \<times> awaited \<times> async_event list" where
  "await_connections pubDone subDone [] p = (p, Unsettled, [])"
| "await_connections pubDone subDone (Resolves PubClient # es) p =
     (if subDone then (p, Fulfilled, es) else await_connections True subDone es p)"
| "await_connections pubDone subDone (Resolves SubClient # es) p =
     (if pubDone then (p, Fulfilled, es) else await_connections pubDone True es p)"
| "await_connections pubDone subDone (Rejects r reason # es) p = (p, RejectedWith reason, es)"
| "await_connections pubDone subDone (EmitsError r reason # es) p = (uncaught reason p, Ended, es)"
| "await_connections pubDone subDone (ListenFails reason # es) p = (uncaught reason p, Ended, es)"

text \<open>
  \<^verbatim>\<open>createSocketIO\<close> returns the socket.io server or throws; what it did before
  throwing stays done, so the process comes back in every case.
\<close>

definition createSocketIO ::
  "config \<Rightarrow> async_event list \<Rightarrow> process \<Rightarrow> process \<times> awaited \<times> async_event list" where
  "createSocketIO cfg events p =
     (let p1 = (emit (IoAttach (socketCors cfg)) p)\<lparr>io_cors := Some (socketCors cfg)\<rparr>;
          p2 = emit (CreateClient (REDIS_HOST cfg)) p1;
          p3 = emit DuplicateClient p2;
          p4 = emit (ClientConnect PubClient) p3;
          p5 = emit (ClientConnect SubClient) p4
      in case await_connections False False events p5 of
           (p6, Fulfilled, rest) \<Rightarrow> ((emit IoAdapter p6)\<lparr>adapter_installed := True\<rparr>, Fulfilled, rest)
         | (p6, outcome, rest) \<Rightarrow> (p6, outcome, rest))"

definition socketIOConnections :: "process \<Rightarrow> process" where
  "socketIOConnections p = p"

text \<open>
  Events that arrive once \<^verbatim>\<open>startServer\<close> has run to its end: nothing awaits the
  promises any more, and an error event still finds no listener.
\<close>

fun later_events :: "async_event list \<Rightarrow> process \<Rightarrow> process" where
  "later_events [] p = p"
| "later_events (Resolves r # es) p = later_events es p"
| "later_events (Rejects r reason # es) p = later_events es p"
| "later_events (EmitsError r reason # es) p =
     (if exit_code p = None then uncaught reason p else p)"
| "later_events (ListenFails reason # es) p =
     (if exit_code p = None then uncaught reason p else p)"

text \<open>
  \<^verbatim>\<open>startServer\<close>: the body of the \<^verbatim>\<open>try\<close>, the \<^verbatim>\<open>catch\<close> that logs a rejection,
  and then the rest of the events.
\<close>

definition startServer :: "config \<Rightarrow> string \<Rightarrow> async_event list \<Rightarrow> process \<Rightarrow> process" where
  "startServer cfg pid events p =
     (let p1 = startHttpServer pid p
      in case createSocketIO cfg events p1 of
           (p2, Fulfilled, rest) \<Rightarrow> later_events rest (socketIOConnections p2)
         | (p2, RejectedWith err, rest) \<Rightarrow> later_events rest (emit (LogError err) p2)
         | (p2, Unsettled, rest) \<Rightarrow> p2
         | (p2, Ended, rest) \<Rightarrow> p2)"

subsection \<open>setupDB.ts: the database connection\<close>

text \<open>A template string prints an undefined value as the word \<^verbatim>\<open>undefined\<close>.\<close>

fun template :: "string option \<Rightarrow> string" where
  "template None = ''undefined''"
| "template (Some s) = s"

definition connect :: "config \<Rightarrow> connect_outcome \<Rightarrow> process \<Rightarrow> process" where
  "connect cfg result p =
     (let p1 = emit (MongooseConnect (template (DATABASE_URL cfg))) p
      in case result of
           Connected \<Rightarrow> emit (LogInfo ''Successfully connected to database.'') p1
         | ConnectFailed reason \<Rightarrow>
             process_exit 1 (emit (LogError (''Error connecting to database '' @ reason)) p1))"

text \<open>
  \<^verbatim>\<open>databaseConnection\<close> calls \<^verbatim>\<open>connect\<close> and registers it as the listener of
  \<^verbatim>\<open>disconnected\<close> at once, before the first attempt has settled.  A first attempt
  that fails raises \<^verbatim>\<open>disconnected\<close>, so the listener starts a second attempt
  before the rejection of the first one reaches its handler and ends the process.
\<close>

definition databaseConnection :: "config \<Rightarrow> connect_outcome \<Rightarrow> process \<Rightarrow> process" where
  "databaseConnection cfg result p =
     (let p1 = (emit (MongooseConnect (template (DATABASE_URL cfg))) p)\<lparr>on_disconnected := True\<rparr>
      in case result of
           Connected \<Rightarrow> emit (LogInfo ''Successfully connected to database.'') p1
         | ConnectFailed reason \<Rightarrow>
             process_exit 1
               (emit (LogError (''Error connecting to database '' @ reason))
                 (emit (MongooseConnect (template (DATABASE_URL cfg))) p1)))"

text \<open>
  One \<^verbatim>\<open>disconnected\<close> event of the mongoose connection, with the result of the
  connection attempt the listener makes.  A process that has exited runs no listener.
\<close>

definition disconnected :: "config \<Rightarrow> connect_outcome \<Rightarrow> process \<Rightarrow> process" where
  "disconnected cfg result p =
     (if exit_code p = None \<and> on_disconnected p then connect cfg result p else p)"

fun disconnections :: "config \<Rightarrow> connect_outcome list \<Rightarrow> process \<Rightarrow> process" where
  "disconnections cfg [] p = p"
| "disconnections cfg (r # rs) p = disconnections cfg rs (disconnected cfg r p)"

fun is_connect_attempt :: "effect \<Rightarrow> bool" where
  "is_connect_attempt (MongooseConnect url) = True"
| "is_connect_attempt e = False"

definition connect_attempts :: "process \<Rightarrow> nat" where
  "connect_attempts p = length (filter is_connect_attempt (trace p))"

fun succeeded :: "connect_outcome \<Rightarrow> bool" where
  "succeeded Connected = True"
| "succeeded (ConnectFailed reason) = False"

section \<open>setupServer.ts: the handlers of globalErrorHandler\<close>

text \<open>JSON values, as far as the bodies of the responses need them.\<close>

datatype jvalue =
    JString string
  | JNumber int
  | JDate nat
  | JObject "(string \<times> jvalue) list"

fun field :: "string \<Rightarrow> jvalue \<Rightarrow> jvalue option" where
  "field k (JObject kvs) = map_of kvs k"
| "field k v = None"

text \<open>
  The class \<^verbatim>\<open>CustomError\<close> is declared in the module error-handler, which is not
  among the sources.  The boundary reads two things of it: the field
  \<^verbatim>\<open>statusCode\<close> and the value that the method \<^verbatim>\<open>serializeErrors()\<close> returns.  Any
  other value that was thrown is kept as its text.
\<close>

record custom_error =
  statusCode :: nat
  error_message :: string
  serializeErrors :: jvalue

datatype thrown = CustomError custom_error | OtherError string

fun error_text :: "thrown \<Rightarrow> string" where
  "error_text (CustomError e) = error_message e"
| "error_text (OtherError text) = text"

text \<open>
  A handler either sends a response (status and JSON body) or calls \<^verbatim>\<open>next()\<close>
  with no argument and sends nothing itself.
\<close>

datatype reply = Responded nat jvalue | Next

definition NOT_FOUND :: nat where
  "NOT_FOUND = 404"

definition CREATED :: nat where
  "CREATED = 201"

definition notFoundReply :: "string \<Rightarrow> reply" where
  "notFoundReply originalUrl =
     Responded NOT_FOUND (JObject [(''message'', JString (originalUrl @ '' not found''))])"

definition errorBoundary :: "thrown \<Rightarrow> effect list \<times> reply" where
  "errorBoundary error =
     ([LogError (error_text error)],
      case error of
        CustomError e \<Rightarrow> Responded (statusCode e) (serializeErrors e)
      | OtherError text \<Rightarrow> Next)"

text \<open>What the specification asks of an unrecognized error: status 500.\<close>

fun is_internal_error_response :: "reply \<Rightarrow> bool" where
  "is_internal_error_response (Responded code body) = (code = 500)"
| "is_internal_error_response Next = False"

section \<open>signin.ts\<close>

text \<open>
  The fields of \<^verbatim>\<open>IAuthDocument\<close> that the controller reads; \<open>doc_id\<close> is \<^verbatim>\<open>_id\<close>.
\<close>

record auth_document =
  doc_id :: string
  uId :: string
  email :: string
  username :: string
  avatarColor :: string
  createdAt :: nat

record request =
  body_username :: string
  body_password :: string
  session :: "jvalue option"

record response =
  status :: nat
  json :: jvalue

text \<open>
  What the controller calls and the sources do not contain: the validation schema
  (it answers with the message of the first violation, if any), the two database
  services, the password comparison of the document, and \<^verbatim>\<open>JWT.sign\<close>.
\<close>

record services =
  loginSchema :: "request \<Rightarrow> string option"
  getAuthUserByUsername :: "string \<Rightarrow> auth_document option"
  comparePassword :: "auth_document \<Rightarrow> string \<Rightarrow> bool"
  getUserByAuthId :: "string \<Rightarrow> (string \<times> jvalue) list option"
  JWT_sign :: "jvalue \<Rightarrow> string option \<Rightarrow> string"

datatype signin_error = BadReqestError string | SchemaViolation string

text \<open>
  The decorator \<^verbatim>\<open>@joiValidation(schema)\<close> wraps the method.  Its module is not
  among the sources either; it is taken to check the body against the schema before
  the method runs and to throw when the schema is violated, so that the method body
  runs on accepted requests only.
\<close>

definition joiValidation ::
  "(request \<Rightarrow> string option) \<Rightarrow> (request \<Rightarrow> signin_error + 'a) \<Rightarrow> request \<Rightarrow> signin_error + 'a" where
  "joiValidation schema method req =
     (case schema req of
        Some violation \<Rightarrow> Inl (SchemaViolation violation)
      | None \<Rightarrow> method req)"

text \<open>
  The object spread \<^verbatim>\<open>{...readUser, k: v}\<close>: the entries of \<open>readUser\<close> (none when
  it is null), then each named key overwritten in place or appended.
\<close>

fun spread :: "(string \<times> jvalue) list option \<Rightarrow> (string \<times> jvalue) list" where
  "spread None = []"
| "spread (Some entries) = entries"

definition jwt_claims :: "auth_document \<Rightarrow> jvalue" where
  "jwt_claims existingUser =
     JObject [(''userId'', JString (doc_id existingUser)),
              (''uId'', JString (uId existingUser)),
              (''email'', JString (email existingUser)),
              (''username'', JString (username existingUser)),
              (''avatarColor'', JString (avatarColor existingUser))]"

definition userDocument :: "(string \<times> jvalue) list option \<Rightarrow> auth_document \<Rightarrow> (string \<times> jvalue) list" where
  "userDocument readUser existingUser =
     AList.update ''createdAt'' (JDate (createdAt existingUser))
       (AList.update ''uId'' (JString (uId existingUser))
         (AList.update ''avatarColor'' (JString (avatarColor existingUser))
           (AList.update ''email'' (JString (email existingUser))
             (AList.update ''username'' (JString (username existingUser))
               (AList.update ''authId'' (JString (doc_id existingUser))
                 (spread readUser))))))"

definition read_body :: "services \<Rightarrow> config \<Rightarrow> request \<Rightarrow> signin_error + (request \<times> response)" where
  "read_body sv cfg req =
     (case getAuthUserByUsername sv (body_username req) of
        None \<Rightarrow> Inl (BadReqestError ''Invalid credentials'')
      | Some existingUser \<Rightarrow>
          if \<not> comparePassword sv existingUser (body_password req)
          then Inl (BadReqestError ''Invalid credentials'')
          else
            let readUser = getUserByAuthId sv (doc_id existingUser);
                userJwt = JWT_sign sv (jwt_claims existingUser) (JWT_TOKEN cfg);
                req' = req\<lparr>session := Some (JObject [(''jwt'', JString userJwt)])\<rparr>
            in Inr (req',
                 \<lparr> status = CREATED,
                   json = JObject [(''message'', JString ''User logged in successfully''),
                                   (''user'', JObject (userDocument readUser existingUser)),
                                   (''token'', JString userJwt)] \<rparr>))"

definition SignIn_read :: "services \<Rightarrow> config \<Rightarrow> request \<Rightarrow> signin_error + (request \<times> response)" where
  "SignIn_read sv cfg = joiValidation (loginSchema sv) (read_body sv cfg)"

subsection \<open>The session cookie on the wire\<close>

text \<open>
  The connection a request arrives on.  \<^verbatim>\<open>startServer\<close> wraps the application in
  \<^verbatim>\<open>http.Server\<close> and nothing sets \<^verbatim>\<open>trust proxy\<close>, so every request of this
  server counts as arriving on a plain connection.
\<close>

datatype connection = PlainHttp | Encrypted





section \<open>Concrete inputs\<close>

text \<open>A configuration, a stored account and a request, to run the definitions on.\<close>

definition sample_config :: config where
  "sample_config =
     \<lparr> NODE_ENV = Some ''production'',
       CLIENT_URL = Some ''http://localhost:3000'',
       REDIS_HOST = Some ''redis://localhost:6379'',
       DATABASE_URL = Some ''mongodb://localhost:27017/akademia'',
       SECRET_KEY_ONE = Some ''first-cookie-key'',
       SECRET_KEY_TWO = Some ''second-cookie-key'',
       JWT_TOKEN = Some ''claim-key'' \<rparr>"


definition sample_account :: auth_document where
  "sample_account =
     \<lparr> doc_id = ''64b7f0c2a1'',
       uId = ''301122334455'',
       email = ''ada@example.org'',
       username = ''Ada'',
       avatarColor = ''teal'',
       createdAt = 1700000000 \<rparr>"

definition sample_services :: services where
  "sample_services =
     \<lparr> loginSchema = (\<lambda>req. if length (body_password req) < 4 then Some ''Invalid password'' else None),
       getAuthUserByUsername = (\<lambda>u. if u = ''Ada'' then Some sample_account else None),
       comparePassword = (\<lambda>doc pw. pw = ''qwerty''),
       getUserByAuthId =
         (\<lambda>i. if i = ''64b7f0c2a1''
              then Some [(''_id'', JString ''99aa''), (''username'', JString ''stale''), (''postsCount'', JNumber 3)]
              else None),
       JWT_sign = (\<lambda>claims key. ''header.payload.signature'') \<rparr>"

definition sample_request :: "string \<Rightarrow> string \<Rightarrow> request" where
  "sample_request u pw = \<lparr> body_username = u, body_password = pw, session = None \<rparr>"

section \<open>The order of the middleware stack\<close>

lemma start_registrations_append:
  "start_registrations cfg app =
     app @
     [Use ''/'' [CookieSession (sessionCookie cfg)],
      Use ''/'' [Hpp],
      Use ''/'' [Helmet],
      Use ''/'' [Cors httpCors],
      Use ''/'' [Compression],
      Use ''/'' [Json ''50mb''],
      Use ''/'' [Urlencoded True ''50mb''],
      Use ''/queues'' [ServerAdapterRouter],
      Use ''/api/v1'' [AuthRoutes],
      Use ''/api/v1'' [SignoutRoutes],
      Use ''/api/v1'' [VerifyUser, CurrentUserRoutes],
      AllMethods ''*'' [NotFoundReply],
      Use ''/'' [ErrorBoundary]]"
  by (simp add: start_registrations_def globalErrorHandler_def routeMiddleware_def
      applicationRoute_def standardMiddleware_def securityMiddleware_def app_use_def
      app_all_def BASE_PATH_def Let_def)

lemma stages_fresh_application:
  "stages (start_registrations cfg express) =
     [Security, Security, Security, Security, Security,
      BodyDecoding, BodyDecoding,
      BusinessDispatch, BusinessDispatch, BusinessDispatch,
      AuthGate, BusinessDispatch,
      ErrorNormalization, ErrorNormalization]"
  by (simp add: start_registrations_append express_def stages_def pipeline_def)

text \<open>
  Claim C7, as the code has it.  On a fresh application the stack is: the five
  security filters (cookie session, hpp, helmet, cors, compression), then the two
  body parsers, then the routers, then the 404 reply and the error boundary.  Among
  the routers the queue dashboard, the auth routes and the sign-out routes come first
  and have no gate; the authentication gate is mounted once, in the layer of the
  current-user routes and directly in front of them.  So every security filter
  precedes every body parser, every body parser precedes every router, and error
  normalization comes last.  Layers registered earlier on the application stay in
  front.
\<close>

theorem start_registrations_order:
  "start_registrations cfg app =
     app @
     [Use ''/'' [CookieSession (sessionCookie cfg)],
      Use ''/'' [Hpp],
      Use ''/'' [Helmet],
      Use ''/'' [Cors httpCors],
      Use ''/'' [Compression],
      Use ''/'' [Json ''50mb''],
      Use ''/'' [Urlencoded True ''50mb''],
      Use ''/queues'' [ServerAdapterRouter],
      Use BASE_PATH [AuthRoutes],
      Use BASE_PATH [SignoutRoutes],
      Use BASE_PATH [VerifyUser, CurrentUserRoutes],
      AllMethods ''*'' [NotFoundReply],
      Use ''/'' [ErrorBoundary]] \<and>
   stages (start_registrations cfg express) =
     [Security, Security, Security, Security, Security,
      BodyDecoding, BodyDecoding,
      BusinessDispatch, BusinessDispatch, BusinessDispatch,
      AuthGate, BusinessDispatch,
      ErrorNormalization, ErrorNormalization]"
proof
  show "start_registrations cfg app =
     app @
     [Use ''/'' [CookieSession (sessionCookie cfg)], Use ''/'' [Hpp], Use ''/'' [Helmet],
      Use ''/'' [Cors httpCors], Use ''/'' [Compression], Use ''/'' [Json ''50mb''],
      Use ''/'' [Urlencoded True ''50mb''], Use ''/queues'' [ServerAdapterRouter],
      Use BASE_PATH [AuthRoutes], Use BASE_PATH [SignoutRoutes],
      Use BASE_PATH [VerifyUser, CurrentUserRoutes],
      AllMethods ''*'' [NotFoundReply], Use ''/'' [ErrorBoundary]]"
    by (simp add: start_registrations_append BASE_PATH_def)
next
  show "stages (start_registrations cfg express) =
     [Security, Security, Security, Security, Security, BodyDecoding, BodyDecoding,
      BusinessDispatch, BusinessDispatch, BusinessDispatch, AuthGate, BusinessDispatch,
      ErrorNormalization, ErrorNormalization]"
    by (rule stages_fresh_application)
qed

text \<open>
  Claim C7 as stated fails: the stages are not in the order security, body decoding,
  authentication gate, business dispatch, error normalization, because three routers
  are registered before the authentication gate.
\<close>

theorem start_registrations_not_in_spec_order:
  "\<not> in_spec_order (start_registrations sample_config express)"
  by (simp add: in_spec_order_def stages_fresh_application)

section \<open>The options of the session cookie and of the cross-origin policy\<close>

text \<open>
  Claim C4.  The cookie is named session and is secure exactly when the environment
  is not development.  Its \<open>maxAge\<close> is the number 604800, which the cookie-session
  package reads as milliseconds: the cookie lives 604 seconds, not 604800 seconds
  (the seven days of the comment in the source).
\<close>

theorem sessionCookie_options:
  "name (sessionCookie cfg) = ''session'' \<and>
   secure (sessionCookie cfg) = (NODE_ENV cfg \<noteq> Some ''development'') \<and>
   maxAge (sessionCookie cfg) = 604800 \<and>
   lifetime_seconds (sessionCookie cfg) = 604"
  by (simp add: sessionCookie_def lifetime_seconds_def)

text \<open>
  Claim C3.  Both layers permit the methods GET, POST, PUT, DELETE and OPTIONS only.
  The real-time transport takes its origin from the configured client URL; the HTTP
  layer, which is part of the stack, has the origin \<^verbatim>\<open>*\<close> and admits an origin
  that is not the client URL.
\<close>

theorem httpCors_admits_foreign_origin:
  "methods httpCors = [''GET'', ''POST'', ''PUT'', ''DELETE'', ''OPTIONS''] \<and>
   methods (socketCors cfg) = [''GET'', ''POST'', ''PUT'', ''DELETE'', ''OPTIONS''] \<and>
   origin (socketCors cfg) = CLIENT_URL cfg \<and>
   \<not> origin_admitted (socketCors sample_config) ''https://attacker.example'' \<and>
   Cors httpCors \<in> set (pipeline (start_registrations cfg express)) \<and>
   origin httpCors = Some ''*'' \<and>
   origin_admitted httpCors ''https://attacker.example''"
  by (simp add: start_registrations_append express_def pipeline_def httpCors_def socketCors_def
      origin_admitted_def sample_config_def)

section \<open>The error boundary\<close>

text \<open>
  Claim C2, as the code has it.  The boundary logs every error.  For a
  \<^verbatim>\<open>CustomError\<close> it responds with that error's status code and serialized
  message.  For any other error it sends no response of its own and calls
  \<^verbatim>\<open>next()\<close>.
\<close>

theorem errorBoundary_reply:
  "errorBoundary (CustomError e) =
     ([LogError (error_message e)], Responded (statusCode e) (serializeErrors e)) \<and>
   errorBoundary (OtherError text) = ([LogError text], Next)"
  by (simp add: errorBoundary_def)

text \<open>
  Claim C2 as stated fails: an error that is not a \<^verbatim>\<open>CustomError\<close> does not get a
  response with status 500 from the boundary.
\<close>

theorem errorBoundary_unrecognized_not_500:
  "snd (errorBoundary (OtherError ''database unreachable'')) = Next \<and>
   \<not> is_internal_error_response (snd (errorBoundary (OtherError ''database unreachable'')))"
  by (simp add: errorBoundary_def)

section \<open>Starting the server\<close>

lemma uncaught_fields:
  "exit_code (uncaught reason p) = Some 1"
  "listening (uncaught reason p) = listening p"
  "adapter_installed (uncaught reason p) = adapter_installed p"
  "trace (uncaught reason p) = trace p @ [Uncaught reason, ProcessExit 1]"
  by (simp_all add: uncaught_def process_exit_def emit_def)

lemma later_events_quiet:
  "\<not> list_ex is_error_event es \<Longrightarrow> later_events es p = p"
  by (induction es p rule: later_events.induct) simp_all

lemma later_events_exit:
  "list_ex is_error_event es \<Longrightarrow> exit_code p = None \<Longrightarrow> exit_code (later_events es p) = Some 1"
  by (induction es p rule: later_events.induct) (simp_all add: uncaught_fields)

lemma later_events_frame:
  "listening (later_events es p) = listening p \<and>
   adapter_installed (later_events es p) = adapter_installed p \<and>
   (\<exists>more. trace (later_events es p) = trace p @ more)"
  by (induction es p rule: later_events.induct) (simp_all add: uncaught_fields)

lemma await_connections_quiet:
  "\<not> list_ex is_error_event es \<Longrightarrow>
   await_connections a b es p = (q, outcome, rest) \<Longrightarrow>
   q = p \<and> outcome \<noteq> Ended \<and> \<not> list_ex is_error_event rest"
  by (induction a b es p rule: await_connections.induct) (auto split: if_splits)

lemma await_connections_error:
  "list_ex is_error_event es \<Longrightarrow>
   await_connections a b es p = (q, outcome, rest) \<Longrightarrow>
   (outcome = Ended \<and> exit_code q = Some 1) \<or>
   (q = p \<and> (outcome = Fulfilled \<or> (\<exists>reason. outcome = RejectedWith reason)) \<and> list_ex is_error_event rest)"
  by (induction a b es p rule: await_connections.induct) (auto split: if_splits simp: uncaught_fields)

lemma await_connections_frame:
  "await_connections a b es p = (q, outcome, rest) \<Longrightarrow>
   listening q = listening p \<and> adapter_installed q = adapter_installed p \<and>
   (\<exists>more. trace q = trace p @ more)"
  by (induction a b es p rule: await_connections.induct) (auto split: if_splits simp: uncaught_fields)

lemma await_connections_Fulfilled:
  "await_connections a b es p = (q, Fulfilled, rest) \<Longrightarrow>
   (a \<or> Resolves PubClient \<in> set es) \<and> (b \<or> Resolves SubClient \<in> set es)"
  by (induction a b es p rule: await_connections.induct) (auto split: if_splits)


lemma startServer_via:
  "\<exists>p5. trace p5 = trace p @
            [LogInfo (''Server started with process '' @ pid),
             HttpListen SERVER_PORT ''Server running on port 3003'',
             IoAttach (socketCors cfg), CreateClient (REDIS_HOST cfg), DuplicateClient,
             ClientConnect PubClient, ClientConnect SubClient] \<and>
         exit_code p5 = exit_code p \<and> listening p5 \<and>
         adapter_installed p5 = adapter_installed p \<and>
         io_cors p5 = Some (socketCors cfg) \<and>
         on_disconnected p5 = on_disconnected p \<and>
         startServer cfg pid events p =
           (case await_connections False False events p5 of
              (q, Fulfilled, rest) \<Rightarrow> later_events rest ((emit IoAdapter q)\<lparr>adapter_installed := True\<rparr>)
            | (q, RejectedWith err, rest) \<Rightarrow> later_events rest (emit (LogError err) q)
            | (q, Unsettled, rest) \<Rightarrow> q
            | (q, Ended, rest) \<Rightarrow> q)"
proof -
  define p5 where "p5 =
    emit (ClientConnect SubClient) (emit (ClientConnect PubClient) (emit DuplicateClient
      (emit (CreateClient (REDIS_HOST cfg))
        ((emit (IoAttach (socketCors cfg)) (startHttpServer pid p))\<lparr>io_cors := Some (socketCors cfg)\<rparr>))))"
  obtain q outcome rest where aw: "await_connections False False events p5 = (q, outcome, rest)"
    by (cases "await_connections False False events p5") auto
  have run: "startServer cfg pid events p =
           (case await_connections False False events p5 of
              (q, Fulfilled, rest) \<Rightarrow> later_events rest ((emit IoAdapter q)\<lparr>adapter_installed := True\<rparr>)
            | (q, RejectedWith err, rest) \<Rightarrow> later_events rest (emit (LogError err) q)
            | (q, Unsettled, rest) \<Rightarrow> q
            | (q, Ended, rest) \<Rightarrow> q)"
    unfolding startServer_def createSocketIO_def Let_def p5_def [symmetric] aw
    by (cases outcome) (simp_all add: socketIOConnections_def)
  have fields: "trace p5 = trace p @
            [LogInfo (''Server started with process '' @ pid),
             HttpListen SERVER_PORT ''Server running on port 3003'',
             IoAttach (socketCors cfg), CreateClient (REDIS_HOST cfg), DuplicateClient,
             ClientConnect PubClient, ClientConnect SubClient]"
    "exit_code p5 = exit_code p" "listening p5" "adapter_installed p5 = adapter_installed p"
    "io_cors p5 = Some (socketCors cfg)" "on_disconnected p5 = on_disconnected p"
    by (simp_all add: p5_def emit_def startHttpServer_def Let_def)
  from run fields show ?thesis by blast
qed

lemma await_connections_rejects_first:
  "pre = [] \<or> pre = [Resolves c] \<Longrightarrow>
   await_connections False False (pre @ Rejects r reason # post) p = (p, RejectedWith reason, post)"
  by (cases c) auto

lemma startServer_error_exits:
  assumes "list_ex is_error_event events" and "exit_code p = None"
  shows "exit_code (startServer cfg pid events p) = Some 1"
proof -
  from startServer_via [of p pid cfg events] obtain p5
    where p5: "exit_code p5 = exit_code p"
      and run: "startServer cfg pid events p =
           (case await_connections False False events p5 of
              (q, Fulfilled, rest) \<Rightarrow> later_events rest ((emit IoAdapter q)\<lparr>adapter_installed := True\<rparr>)
            | (q, RejectedWith err, rest) \<Rightarrow> later_events rest (emit (LogError err) q)
            | (q, Unsettled, rest) \<Rightarrow> q
            | (q, Ended, rest) \<Rightarrow> q)"
    by blast
  obtain q outcome rest where aw: "await_connections False False events p5 = (q, outcome, rest)"
    by (cases "await_connections False False events p5") auto
  from await_connections_error [OF assms(1) aw]
  show ?thesis
  proof
    assume "outcome = Ended \<and> exit_code q = Some 1"
    then show ?thesis by (simp add: run aw)
  next
    assume h: "q = p5 \<and> (outcome = Fulfilled \<or> (\<exists>reason. outcome = RejectedWith reason)) \<and>
      list_ex is_error_event rest"
    then have q: "exit_code q = None" and rest: "list_ex is_error_event rest"
      using assms(2) p5 by simp_all
    have "exit_code (later_events rest ((emit IoAdapter q)\<lparr>adapter_installed := True\<rparr>)) = Some 1"
      by (rule later_events_exit [OF rest]) (simp add: q emit_def)
    moreover have "exit_code (later_events rest (emit (LogError err) q)) = Some 1" for err
      by (rule later_events_exit [OF rest]) (simp add: q emit_def)
    ultimately show ?thesis
      using h by (auto simp: run aw)
  qed
qed

lemma startServer_quiet:
  assumes "\<not> list_ex is_error_event events"
  shows "exit_code (startServer cfg pid events p) = exit_code p \<and>
         listening (startServer cfg pid events p)"
proof -
  from startServer_via [of p pid cfg events] obtain p5
    where p5: "exit_code p5 = exit_code p" "listening p5"
      and run: "startServer cfg pid events p =
           (case await_connections False False events p5 of
              (q, Fulfilled, rest) \<Rightarrow> later_events rest ((emit IoAdapter q)\<lparr>adapter_installed := True\<rparr>)
            | (q, RejectedWith err, rest) \<Rightarrow> later_events rest (emit (LogError err) q)
            | (q, Unsettled, rest) \<Rightarrow> q
            | (q, Ended, rest) \<Rightarrow> q)"
    by blast
  obtain q outcome rest where aw: "await_connections False False events p5 = (q, outcome, rest)"
    by (cases "await_connections False False events p5") auto
  from await_connections_quiet [OF assms aw]
  have q: "q = p5" and rest: "\<not> list_ex is_error_event rest" by simp_all
  show ?thesis
    using await_connections_quiet [OF assms aw]
    by (cases outcome) (simp_all add: run aw q p5 later_events_quiet [OF rest] emit_def)
qed

lemma startServer_trace_prefix:
  "\<exists>more. trace (startServer cfg pid events p) =
     trace p @
     [LogInfo (''Server started with process '' @ pid),
      HttpListen SERVER_PORT ''Server running on port 3003'',
      IoAttach (socketCors cfg), CreateClient (REDIS_HOST cfg), DuplicateClient,
      ClientConnect PubClient, ClientConnect SubClient] @ more"
proof -
  from startServer_via [of p pid cfg events] obtain p5
    where p5: "trace p5 = trace p @
            [LogInfo (''Server started with process '' @ pid),
             HttpListen SERVER_PORT ''Server running on port 3003'',
             IoAttach (socketCors cfg), CreateClient (REDIS_HOST cfg), DuplicateClient,
             ClientConnect PubClient, ClientConnect SubClient]"
      and run: "startServer cfg pid events p =
           (case await_connections False False events p5 of
              (q, Fulfilled, rest) \<Rightarrow> later_events rest ((emit IoAdapter q)\<lparr>adapter_installed := True\<rparr>)
            | (q, RejectedWith err, rest) \<Rightarrow> later_events rest (emit (LogError err) q)
            | (q, Unsettled, rest) \<Rightarrow> q
            | (q, Ended, rest) \<Rightarrow> q)"
    by blast
  obtain q outcome rest where aw: "await_connections False False events p5 = (q, outcome, rest)"
    by (cases "await_connections False False events p5") auto
  from await_connections_frame [OF aw] obtain m1 where q: "trace q = trace p5 @ m1"
    by auto
  have "\<exists>more. trace (startServer cfg pid events p) = trace p5 @ more"
  proof (cases outcome)
    case Fulfilled
    from later_events_frame [of rest "(emit IoAdapter q)\<lparr>adapter_installed := True\<rparr>"]
    obtain m2 where "trace (later_events rest ((emit IoAdapter q)\<lparr>adapter_installed := True\<rparr>)) =
        trace ((emit IoAdapter q)\<lparr>adapter_installed := True\<rparr>) @ m2" by auto
    then show ?thesis
      by (simp add: run aw Fulfilled q emit_def)
  next
    case (RejectedWith err)
    from later_events_frame [of rest "emit (LogError err) q"]
    obtain m2 where "trace (later_events rest (emit (LogError err) q)) =
        trace (emit (LogError err) q) @ m2" by auto
    then show ?thesis
      by (simp add: run aw RejectedWith q emit_def)
  next
    case Unsettled
    then show ?thesis by (simp add: run aw q)
  next
    case Ended
    then show ?thesis by (simp add: run aw q)
  qed
  then show ?thesis by (simp add: p5)
qed

lemma startServer_adapter_needs_both:
  assumes "adapter_installed (startServer cfg pid events p)" and "\<not> adapter_installed p"
  shows "Resolves PubClient \<in> set events \<and> Resolves SubClient \<in> set events"
proof -
  from startServer_via [of p pid cfg events] obtain p5
    where p5: "adapter_installed p5 = adapter_installed p"
      and run: "startServer cfg pid events p =
           (case await_connections False False events p5 of
              (q, Fulfilled, rest) \<Rightarrow> later_events rest ((emit IoAdapter q)\<lparr>adapter_installed := True\<rparr>)
            | (q, RejectedWith err, rest) \<Rightarrow> later_events rest (emit (LogError err) q)
            | (q, Unsettled, rest) \<Rightarrow> q
            | (q, Ended, rest) \<Rightarrow> q)"
    by blast
  obtain q outcome rest where aw: "await_connections False False events p5 = (q, outcome, rest)"
    by (cases "await_connections False False events p5") auto
  from await_connections_frame [OF aw] assms(2) p5 have q: "\<not> adapter_installed q" by simp
  have "outcome = Fulfilled"
  proof (cases outcome)
    case (RejectedWith err)
    with assms(1) q later_events_frame [of rest "emit (LogError err) q"]
    show ?thesis by (simp add: run aw emit_def)
  next
    case Unsettled
    with assms(1) q show ?thesis by (simp add: run aw)
  next
    case Ended
    with assms(1) q show ?thesis by (simp add: run aw)
  qed simp
  with aw await_connections_Fulfilled [of False False events p5 q rest]
  show ?thesis by simp
qed


lemma startServer_rejected:
  assumes "pre = [] \<or> pre = [Resolves c]" and "\<not> list_ex is_error_event post"
  shows "exit_code (startServer cfg pid (pre @ Rejects r reason # post) p) = exit_code p \<and>
         listening (startServer cfg pid (pre @ Rejects r reason # post) p) \<and>
         adapter_installed (startServer cfg pid (pre @ Rejects r reason # post) p) = adapter_installed p \<and>
         trace (startServer cfg pid (pre @ Rejects r reason # post) p) =
           trace p @
           [LogInfo (''Server started with process '' @ pid),
            HttpListen SERVER_PORT ''Server running on port 3003'',
            IoAttach (socketCors cfg), CreateClient (REDIS_HOST cfg), DuplicateClient,
            ClientConnect PubClient, ClientConnect SubClient, LogError reason]"
proof -
  from startServer_via [of p pid cfg "pre @ Rejects r reason # post"] obtain p5
    where p5: "trace p5 = trace p @
            [LogInfo (''Server started with process '' @ pid),
             HttpListen SERVER_PORT ''Server running on port 3003'',
             IoAttach (socketCors cfg), CreateClient (REDIS_HOST cfg), DuplicateClient,
             ClientConnect PubClient, ClientConnect SubClient]"
        "exit_code p5 = exit_code p" "listening p5" "adapter_installed p5 = adapter_installed p"
      and run: "startServer cfg pid (pre @ Rejects r reason # post) p =
           (case await_connections False False (pre @ Rejects r reason # post) p5 of
              (q, Fulfilled, rest) \<Rightarrow> later_events rest ((emit IoAdapter q)\<lparr>adapter_installed := True\<rparr>)
            | (q, RejectedWith err, rest) \<Rightarrow> later_events rest (emit (LogError err) q)
            | (q, Unsettled, rest) \<Rightarrow> q
            | (q, Ended, rest) \<Rightarrow> q)"
    by blast
  have "startServer cfg pid (pre @ Rejects r reason # post) p = emit (LogError reason) p5"
    by (simp add: run await_connections_rejects_first [OF assms(1)] later_events_quiet [OF assms(2)])
  then show ?thesis
    by (simp add: emit_def p5)
qed

lemma startServer_both_resolve:
  assumes "a \<noteq> b"
  shows "adapter_installed (startServer cfg pid (Resolves a # Resolves b # post) p)"
proof -
  from startServer_via [of p pid cfg "Resolves a # Resolves b # post"] obtain p5
    where run: "startServer cfg pid (Resolves a # Resolves b # post) p =
           (case await_connections False False (Resolves a # Resolves b # post) p5 of
              (q, Fulfilled, rest) \<Rightarrow> later_events rest ((emit IoAdapter q)\<lparr>adapter_installed := True\<rparr>)
            | (q, RejectedWith err, rest) \<Rightarrow> later_events rest (emit (LogError err) q)
            | (q, Unsettled, rest) \<Rightarrow> q
            | (q, Ended, rest) \<Rightarrow> q)"
    by blast
  have "await_connections False False (Resolves a # Resolves b # post) p5 = (p5, Fulfilled, post)"
    using assms by (cases a; cases b) simp_all
  then show ?thesis
    using later_events_frame [of post "(emit IoAdapter p5)\<lparr>adapter_installed := True\<rparr>"]
    by (simp add: run)
qed

text \<open>
  Claim C1, as the code has it.  A bus connection can fail at start-up in two ways.
  When its \<^verbatim>\<open>connect()\<close> promise rejects before the await has settled (at most the
  other client has connected by then) and no error event follows,
  \<^verbatim>\<open>startServer\<close> catches the rejection and logs it as its last act: the process
  does not exit, it keeps serving HTTP, and no adapter is installed.  When a client
  or the HTTP server emits an \<^verbatim>\<open>error\<close> event, for which there is no listener, the
  process ends with exit code 1 and serves no longer.
\<close>

theorem startServer_bus_failure:
  assumes "exit_code p = None"
  shows "((pre = [] \<or> pre = [Resolves c]) \<and> \<not> list_ex is_error_event post \<longrightarrow>
            exit_code (startServer cfg pid (pre @ Rejects r reason # post) p) = None \<and>
            serving (startServer cfg pid (pre @ Rejects r reason # post) p) \<and>
            adapter_installed (startServer cfg pid (pre @ Rejects r reason # post) p) =
              adapter_installed p \<and>
            last (trace (startServer cfg pid (pre @ Rejects r reason # post) p)) = LogError reason) \<and>
         (list_ex is_error_event events \<longrightarrow>
            exit_code (startServer cfg pid events p) = Some 1 \<and>
            \<not> serving (startServer cfg pid events p))"
proof (intro conjI impI)
  assume h: "(pre = [] \<or> pre = [Resolves c]) \<and> \<not> list_ex is_error_event post"
  then have pre: "pre = [] \<or> pre = [Resolves c]" and post: "\<not> list_ex is_error_event post"
    by simp_all
  note rejected = startServer_rejected [OF pre post, of cfg pid r reason p]
  show "exit_code (startServer cfg pid (pre @ Rejects r reason # post) p) = None"
    using rejected assms by simp
  show "serving (startServer cfg pid (pre @ Rejects r reason # post) p)"
    using rejected assms by (simp add: serving_def)
  show "adapter_installed (startServer cfg pid (pre @ Rejects r reason # post) p) = adapter_installed p"
    using rejected by simp
  show "last (trace (startServer cfg pid (pre @ Rejects r reason # post) p)) = LogError reason"
    using rejected by simp
next
  assume e: "list_ex is_error_event events"
  show "exit_code (startServer cfg pid events p) = Some 1"
    by (rule startServer_error_exits [OF e assms])
  then show "\<not> serving (startServer cfg pid events p)"
    by (simp add: serving_def)
qed

theorem startServer_bus_failure_witness:
  "exit_code (startServer sample_config ''4711''
      [Resolves SubClient, Rejects PubClient ''ECONNREFUSED''] new_process) = None \<and>
   serving (startServer sample_config ''4711''
      [Resolves SubClient, Rejects PubClient ''ECONNREFUSED''] new_process) \<and>
   adapter_installed (startServer sample_config ''4711''
      [Resolves SubClient, Rejects PubClient ''ECONNREFUSED''] new_process) = False \<and>
   last (trace (startServer sample_config ''4711''
      [Resolves SubClient, Rejects PubClient ''ECONNREFUSED''] new_process)) = LogError ''ECONNREFUSED'' \<and>
   exit_code (startServer sample_config ''4711''
      [EmitsError PubClient ''ECONNREFUSED''] new_process) = Some 1"
proof -
  have running: "exit_code new_process = None"
    by (simp add: new_process_def)
  from startServer_bus_failure [OF running, of "[Resolves SubClient]" SubClient "[]"
      sample_config "''4711''" PubClient "''ECONNREFUSED''" "[EmitsError PubClient ''ECONNREFUSED'']"]
  show ?thesis
    by (simp add: new_process_def)
qed

text \<open>
  Claim C1 as stated fails: with the publish connection rejected, the process has no
  exit code and goes on serving HTTP.
\<close>

theorem startServer_rejection_no_exit:
  "exit_code (startServer sample_config ''4711''
      [Rejects PubClient ''ECONNREFUSED'', Resolves SubClient] new_process) = None \<and>
   serving (startServer sample_config ''4711''
      [Rejects PubClient ''ECONNREFUSED'', Resolves SubClient] new_process)"
  using startServer_rejected [of "[]" SubClient "[Resolves SubClient]" sample_config "''4711''"
      PubClient "''ECONNREFUSED''" new_process]
  by (simp add: serving_def new_process_def)

text \<open>
  Claim C5, as the code has it.  Whatever happens afterwards, \<^verbatim>\<open>startServer\<close>
  first tells the HTTP server to listen and only then attaches the real-time server,
  creates the publish client and its duplicate, and starts both connections.  The
  adapter is installed only if both connections were established, and it is
  installed when they are the first two events.  As long as no error event ends the
  process, the server is serving HTTP, whether or not the connections were
  established.
\<close>

theorem startServer_listens_first:
  "(\<exists>more. trace (startServer cfg pid events new_process) =
      [LogInfo (''Server started with process '' @ pid),
       HttpListen SERVER_PORT ''Server running on port 3003'',
       IoAttach (socketCors cfg),
       CreateClient (REDIS_HOST cfg),
       DuplicateClient,
       ClientConnect PubClient,
       ClientConnect SubClient] @ more) \<and>
   (adapter_installed (startServer cfg pid events new_process) \<longrightarrow>
      Resolves PubClient \<in> set events \<and> Resolves SubClient \<in> set events) \<and>
   (a \<noteq> b \<longrightarrow> adapter_installed (startServer cfg pid (Resolves a # Resolves b # post) new_process)) \<and>
   (\<not> list_ex is_error_event events \<longrightarrow> serving (startServer cfg pid events new_process))"
proof (intro conjI impI)
  show "\<exists>more. trace (startServer cfg pid events new_process) =
      [LogInfo (''Server started with process '' @ pid),
       HttpListen SERVER_PORT ''Server running on port 3003'',
       IoAttach (socketCors cfg), CreateClient (REDIS_HOST cfg), DuplicateClient,
       ClientConnect PubClient, ClientConnect SubClient] @ more"
    using startServer_trace_prefix [of cfg pid events new_process]
    by (simp add: new_process_def)
next
  assume "adapter_installed (startServer cfg pid events new_process)"
  then show "Resolves PubClient \<in> set events" "Resolves SubClient \<in> set events"
    using startServer_adapter_needs_both [of cfg pid events new_process]
    by (simp_all add: new_process_def)
next
  assume "a \<noteq> b"
  then show "adapter_installed (startServer cfg pid (Resolves a # Resolves b # post) new_process)"
    by (rule startServer_both_resolve)
next
  assume "\<not> list_ex is_error_event events"
  from startServer_quiet [OF this, of cfg pid new_process]
  show "serving (startServer cfg pid events new_process)"
    by (simp add: serving_def new_process_def)
qed

theorem startServer_listens_first_witness:
  "trace (startServer sample_config ''4711'' [Resolves SubClient, Resolves PubClient] new_process) =
     [LogInfo ''Server started with process 4711'',
      HttpListen 3003 ''Server running on port 3003'',
      IoAttach (socketCors sample_config),
      CreateClient (Some ''redis://localhost:6379''),
      DuplicateClient,
      ClientConnect PubClient,
      ClientConnect SubClient,
      IoAdapter] \<and>
   adapter_installed (startServer sample_config ''4711'' [Resolves SubClient, Resolves PubClient] new_process) \<and>
   serving (startServer sample_config ''4711'' [Resolves SubClient, Resolves PubClient] new_process)"
proof -
  have t: "trace (startServer sample_config ''4711'' [Resolves SubClient, Resolves PubClient] new_process) =
     [LogInfo ''Server started with process 4711'',
      HttpListen 3003 ''Server running on port 3003'',
      IoAttach (socketCors sample_config),
      CreateClient (Some ''redis://localhost:6379''),
      DuplicateClient, ClientConnect PubClient, ClientConnect SubClient, IoAdapter]"
    by (simp add: startServer_def startHttpServer_def createSocketIO_def socketIOConnections_def
        emit_def Let_def new_process_def SERVER_PORT_def sample_config_def)
  from startServer_listens_first [of sample_config "''4711''"
      "[Resolves SubClient, Resolves PubClient]" SubClient PubClient "[]"]
  show ?thesis
    using t by simp
qed

text \<open>
  Claim C5 as stated fails: the HTTP server is told to listen before either bus
  connection is attempted, and it is serving at the end of a start-up in which only
  the publish connection was established and no adapter was installed.
\<close>

theorem startServer_serves_with_partial_bus:
  "trace (startServer sample_config ''4711''
      [Resolves PubClient, Rejects SubClient ''ETIMEDOUT''] new_process) =
     [LogInfo ''Server started with process 4711'',
      HttpListen 3003 ''Server running on port 3003'',
      IoAttach (socketCors sample_config),
      CreateClient (Some ''redis://localhost:6379''),
      DuplicateClient,
      ClientConnect PubClient,
      ClientConnect SubClient,
      LogError ''ETIMEDOUT''] \<and>
   serving (startServer sample_config ''4711''
      [Resolves PubClient, Rejects SubClient ''ETIMEDOUT''] new_process) \<and>
   \<not> adapter_installed (startServer sample_config ''4711''
      [Resolves PubClient, Rejects SubClient ''ETIMEDOUT''] new_process)"
  using startServer_rejected [of "[Resolves PubClient]" PubClient "[]" sample_config "''4711''"
      SubClient "''ETIMEDOUT''" new_process]
  by (simp add: serving_def new_process_def SERVER_PORT_def sample_config_def)

section \<open>The database connection after start-up\<close>

lemma connect_Connected:
  "exit_code (connect cfg Connected p) = exit_code p"
  "on_disconnected (connect cfg Connected p) = on_disconnected p"
  "connect_attempts (connect cfg Connected p) = Suc (connect_attempts p)"
  by (simp_all add: connect_def connect_attempts_def emit_def Let_def)

lemma connect_ConnectFailed:
  "exit_code (connect cfg (ConnectFailed reason) p) = Some 1"
  "connect_attempts (connect cfg (ConnectFailed reason) p) = Suc (connect_attempts p)"
  by (simp_all add: connect_def connect_attempts_def process_exit_def emit_def Let_def)

lemma disconnections_exited:
  "exit_code p = Some code \<Longrightarrow> disconnections cfg rs p = p"
  by (induction rs) (simp_all add: disconnected_def)

lemma disconnections_running:
  "exit_code p = None \<Longrightarrow> on_disconnected p \<Longrightarrow>
   exit_code (disconnections cfg rs p) = (if list_all succeeded rs then None else Some 1) \<and>
   connect_attempts (disconnections cfg rs p) =
     connect_attempts p + length (takeWhile succeeded rs) + (if list_all succeeded rs then 0 else 1)"
proof (induction rs arbitrary: p)
  case Nil
  then show ?case by simp
next
  case (Cons r rs)
  show ?case
  proof (cases r)
    case Connected
    have "exit_code (connect cfg Connected p) = None" "on_disconnected (connect cfg Connected p)"
      using Cons.prems by (simp_all add: connect_Connected)
    from Cons.IH [OF this] show ?thesis
      using Cons.prems Connected by (simp add: disconnected_def connect_Connected)
  next
    case (ConnectFailed reason)
    have "disconnections cfg rs (connect cfg (ConnectFailed reason) p) =
            connect cfg (ConnectFailed reason) p"
      by (rule disconnections_exited) (simp add: connect_ConnectFailed)
    then show ?thesis
      using Cons.prems ConnectFailed by (simp add: disconnected_def connect_ConnectFailed)
  qed
qed

lemma databaseConnection_Connected:
  "exit_code (databaseConnection cfg Connected new_process) = None"
  "on_disconnected (databaseConnection cfg Connected new_process)"
  "connect_attempts (databaseConnection cfg Connected new_process) = 1"
  by (simp_all add: databaseConnection_def connect_def connect_attempts_def emit_def
      new_process_def Let_def)

text \<open>
  Claim C6, as the code has it.  After a successful start-up, each
  \<^verbatim>\<open>disconnected\<close> event runs the same \<^verbatim>\<open>connect\<close> routine once, at once.  The
  process keeps running as long as every such attempt succeeds; the first attempt
  that fails makes the process exit with code 1, and no attempt is made after that.
\<close>

theorem disconnections_reconnect_or_exit:
  "disconnected cfg r (databaseConnection cfg Connected new_process) =
     connect cfg r (databaseConnection cfg Connected new_process) \<and>
   exit_code (disconnections cfg rs (databaseConnection cfg Connected new_process)) =
     (if list_all succeeded rs then None else Some 1) \<and>
   connect_attempts (disconnections cfg rs (databaseConnection cfg Connected new_process)) =
     1 + length (takeWhile succeeded rs) + (if list_all succeeded rs then 0 else 1)"
  using disconnections_running [OF databaseConnection_Connected(1,2), of cfg rs cfg]
  by (simp add: disconnected_def databaseConnection_Connected)

text \<open>
  Claim C6 as stated fails: a connection that drops after start-up and cannot be
  re-established at the first attempt makes the process exit with code 1.
\<close>

theorem disconnection_exits_process:
  "exit_code (disconnections sample_config [ConnectFailed ''ECONNRESET'']
      (databaseConnection sample_config Connected new_process)) = Some 1"
  by (simp add: disconnected_def databaseConnection_Connected connect_ConnectFailed)

section \<open>Signing in\<close>


lemma SignIn_read_success:
  assumes "loginSchema sv req = None"
    and "getAuthUserByUsername sv (body_username req) = Some u"
    and "comparePassword sv u (body_password req)"
  shows "SignIn_read sv cfg req =
     Inr (req\<lparr>session := Some (JObject [(''jwt'', JString (JWT_sign sv (jwt_claims u) (JWT_TOKEN cfg)))])\<rparr>,
          \<lparr> status = 201,
            json = JObject [(''message'', JString ''User logged in successfully''),
                            (''user'', JObject (userDocument (getUserByAuthId sv (doc_id u)) u)),
                            (''token'', JString (JWT_sign sv (jwt_claims u) (JWT_TOKEN cfg)))] \<rparr>)"
  using assms by (simp add: SignIn_read_def joiValidation_def read_body_def CREATED_def Let_def)

lemma sample_signin_facts:
  "loginSchema sample_services (sample_request ''Ada'' ''qwerty'') = None"
  "getAuthUserByUsername sample_services (body_username (sample_request ''Ada'' ''qwerty'')) =
     Some sample_account"
  "comparePassword sample_services sample_account (body_password (sample_request ''Ada'' ''qwerty''))"
  "JWT_sign sample_services (jwt_claims sample_account) (JWT_TOKEN sample_config) =
     ''header.payload.signature''"
  by (simp_all add: sample_services_def sample_request_def)






text \<open>
  Claim C9.  Of two requests that pass the schema, one naming no stored account and
  one naming a stored account with a password that does not match, both fail with
  the same error: \<^verbatim>\<open>BadReqestError\<close> with the message Invalid credentials.
\<close>

theorem SignIn_read_failures_equal:
  assumes "loginSchema sv unknown = None"
    and "loginSchema sv mistyped = None"
    and "getAuthUserByUsername sv (body_username unknown) = None"
    and "getAuthUserByUsername sv (body_username mistyped) = Some u"
    and "\<not> comparePassword sv u (body_password mistyped)"
  shows "SignIn_read sv cfg unknown = Inl (BadReqestError ''Invalid credentials'') \<and>
         SignIn_read sv cfg mistyped = SignIn_read sv cfg unknown"
  using assms by (simp add: SignIn_read_def joiValidation_def read_body_def)

theorem SignIn_read_failures_equal_witness:
  "SignIn_read sample_services sample_config (sample_request ''Bob'' ''qwerty'') =
     Inl (BadReqestError ''Invalid credentials'') \<and>
   SignIn_read sample_services sample_config (sample_request ''Ada'' ''asdfgh'') =
     SignIn_read sample_services sample_config (sample_request ''Bob'' ''qwerty'')"
proof -
  have a: "loginSchema sample_services (sample_request ''Bob'' ''qwerty'') = None"
    and b: "loginSchema sample_services (sample_request ''Ada'' ''asdfgh'') = None"
    and c: "getAuthUserByUsername sample_services (body_username (sample_request ''Bob'' ''qwerty'')) = None"
    and d: "getAuthUserByUsername sample_services (body_username (sample_request ''Ada'' ''asdfgh'')) =
              Some sample_account"
    and e: "\<not> comparePassword sample_services sample_account (body_password (sample_request ''Ada'' ''asdfgh''))"
    by (simp_all add: sample_services_def sample_request_def)
  from SignIn_read_failures_equal [OF a b c d e, of sample_config]
  show ?thesis .
qed

text \<open>
  Claim C10.  On every successful sign-in the signed token is the value of the field
  token of the JSON body, and the same token is what the session holds under jwt.
\<close>

theorem SignIn_read_token_in_body:
  assumes "loginSchema sv req = None"
    and "getAuthUserByUsername sv (body_username req) = Some u"
    and "comparePassword sv u (body_password req)"
  shows "\<exists>req' res userJwt.
           SignIn_read sv cfg req = Inr (req', res) \<and>
           userJwt = JWT_sign sv (jwt_claims u) (JWT_TOKEN cfg) \<and>
           field ''token'' (json res) = Some (JString userJwt) \<and>
           session req' = Some (JObject [(''jwt'', JString userJwt)])"
  by (simp add: SignIn_read_success [OF assms])

theorem SignIn_read_token_in_body_witness:
  "\<exists>req' res.
      SignIn_read sample_services sample_config (sample_request ''Ada'' ''qwerty'') = Inr (req', res) \<and>
      field ''token'' (json res) = Some (JString ''header.payload.signature'') \<and>
      session req' = Some (JObject [(''jwt'', JString ''header.payload.signature'')])"
proof -
  from SignIn_read_token_in_body [OF sample_signin_facts(1,2,3), of sample_config]
  show ?thesis
    unfolding sample_signin_facts(4) by blast
qed

end
